theory Spec2Isabelle
  imports Complex_Main "HOL-Library.Sublist" "HOL-Library.AList" "HOL-Library.Multiset"
    "HOL-Library.Product_Lexorder"
begin

section \<open>The data-preparation functions of \<open>content.py\<close>\<close>

text \<open>
  A shallow embedding of the query helpers and of the error paths of the plot
  constructors of \<open>team/content.py\<close>. Everything the Python code reads from outside
  (the configuration, the file system, the SQLite files, the clock) is a field of the
  record \<open>world\<close>; what it prints is the first component of a computation's value,
  and an exception is the \<open>Inl\<close> side of its second component.
\<close>

subsection \<open>Python values, exceptions and effects\<close>

text \<open>
  A float is NaN or a number. The functions below only compare floats, and the
  comparison of two non-NaN doubles is exact, so the carrier of the numbers is any
  linear order; every comparison with NaN is false, as in Python.
\<close>

datatype 'a pyfloat = NaN | Num 'a

fun py_lt :: "'a::linorder pyfloat \<Rightarrow> 'a pyfloat \<Rightarrow> bool" where
  "py_lt (Num x) (Num y) = (x < y)"
| "py_lt _ _ = False"

fun py_gt :: "'a::linorder pyfloat \<Rightarrow> 'a pyfloat \<Rightarrow> bool" where
  "py_gt (Num x) (Num y) = (x > y)"
| "py_gt _ _ = False"

text \<open>
  A cell of a database row or of a dictionary built from one: \<open>None\<close>, a string, an
  integer or a float.
\<close>

datatype cell = CNull | CStr string | CInt int | CFloat "real pyfloat"

type_synonym row = "(string \<times> cell) list"

datatype exn =
    FailToGraphException
  | NameError
  | TypeError
  | KeyError
  | IndexError
  | OperationalError
  | RecursionError
  | IOError
  | StopIteration
  | AttributeError

text \<open>
  A computation prints lines to standard output and then either raises or returns.
\<close>

type_synonym 'a io = "string list \<times> (exn + 'a)"

definition py_return :: "'a \<Rightarrow> 'a io" where
  "py_return x = ([], Inr x)"

definition py_raise :: "exn \<Rightarrow> 'a io" where
  "py_raise e = ([], Inl e)"

definition py_print :: "string \<Rightarrow> unit io" where
  "py_print s = ([s], Inr ())"

definition bind :: "'a io \<Rightarrow> ('a \<Rightarrow> 'b io) \<Rightarrow> 'b io" where
  "bind m f =
     (case m of
        (out, Inl e) \<Rightarrow> (out, Inl e)
      | (out, Inr x) \<Rightarrow> (case f x of (out', r) \<Rightarrow> (out @ out', r)))"

text \<open>\<open>d[key]\<close> on a dictionary: KeyError when the key is absent.\<close>

definition getitem :: "string \<Rightarrow> row \<Rightarrow> cell io" where
  "getitem key d = (case map_of d key of None \<Rightarrow> py_raise KeyError | Some v \<Rightarrow> py_return v)"

text \<open>The value of a column in a row that a SELECT produced (NULL when it holds none).\<close>

definition col :: "row \<Rightarrow> string \<Rightarrow> cell" where
  "col r k = (case map_of r k of None \<Rightarrow> CNull | Some v \<Rightarrow> v)"

text \<open>\<open>sub in s\<close> on strings.\<close>

fun py_in :: "string \<Rightarrow> string \<Rightarrow> bool" where
  "py_in sub [] = (sub = [])"
| "py_in sub (c # cs) = (prefix sub (c # cs) \<or> py_in sub cs)"

subsection \<open>The world outside the program\<close>

text \<open>
  An SQLite file that cannot be opened makes \<open>sqlite3.connect\<close> raise; one that can
  be opened holds tables, and a statement on a table it does not hold makes
  \<open>cursor.execute\<close> raise \<open>sqlite3.Error\<close>.
\<close>

datatype sqlite_file = Unopenable | Database "(string \<times> row list) list"

text \<open>A row of a methylation file as \<open>pandas.read_csv\<close> delivers it.\<close>

record mch_row =
  mch_gene :: cell
  mch_samp :: cell
  mch_original :: "real pyfloat"
  mch_normalized :: "real pyfloat"

record world =
  config_DATA_DIR :: string
  datetime_now :: string
  os_path_isdir :: "string \<Rightarrow> bool"
  os_path_isfile :: "string \<Rightarrow> bool"
  os_walk_top :: "string \<Rightarrow> string list option"
  glob_glob :: "string \<Rightarrow> string list"
  sqlite3_file :: "string \<Rightarrow> sqlite_file"
  sql_like :: "string \<Rightarrow> string \<Rightarrow> bool"
  csv_DictReader :: "string \<Rightarrow> row list option"
  pandas_read_csv :: "string \<Rightarrow> mch_row list option"
  pandas_to_numeric :: "cell \<Rightarrow> real pyfloat"

text \<open>
  \<open>os_walk_top w p\<close> is the directory list of the first triple that \<open>os.walk(p)\<close>
  yields, and \<open>None\<close> when the walk yields absent (\<open>p\<close> is not a directory that can
  be listed). \<open>sql_like w v pat\<close> is SQLite's \<open>v LIKE pat\<close>. \<open>csv_DictReader w p\<close> is
  the list of dictionaries that \<open>csv.DictReader\<close> reads from the file \<open>p\<close>, and \<open>None\<close>
  when opening \<open>p\<close> raises IOError; \<open>pandas_read_csv w p\<close> is the frame read from a
  methylation file, \<open>None\<close> when that raises FileNotFoundError. \<open>pandas_to_numeric\<close>
  is the conversion of one value by \<open>pandas.to_numeric(errors='coerce')\<close>.
\<close>

subsection \<open>\<open>species_exists\<close> and \<open>gene_exists\<close>\<close>

definition species_exists :: "world \<Rightarrow> string \<Rightarrow> bool" where
  "species_exists w species =
     os_path_isdir w (config_DATA_DIR w @ ''/ensembles/'' @ species)"

definition datasets_path_of :: "world \<Rightarrow> string \<Rightarrow> string" where
  "datasets_path_of w species = config_DATA_DIR w @ ''/ensembles/'' @ species @ ''/datasets''"

definition gene_glob :: "world \<Rightarrow> string \<Rightarrow> string \<Rightarrow> string \<Rightarrow> string \<Rightarrow> string list" where
  "gene_glob w topdir dir methylationType gene =
     glob_glob w (topdir @ ''/'' @ dir @ ''/'' @ methylationType @ ''/'' @ gene @ ''*'')"

text \<open>
  The inner loop of \<open>gene_exists\<close> over the directories of the first walk step:
  \<open>True\<close> is its \<open>return True\<close>, \<open>False\<close> is falling through to \<open>return False\<close>.
  An empty glob result is the caught IndexError.
\<close>

fun gene_exists_dirs :: "world \<Rightarrow> string \<Rightarrow> string \<Rightarrow> string \<Rightarrow> string list \<Rightarrow> bool" where
  "gene_exists_dirs w topdir methylationType gene [] = False"
| "gene_exists_dirs w topdir methylationType gene (dir # dirs) =
     (case gene_glob w topdir dir methylationType gene of
        [] \<Rightarrow> gene_exists_dirs w topdir methylationType gene dirs
      | filename # _ \<Rightarrow>
          if filename \<noteq> [] then True
          else gene_exists_dirs w topdir methylationType gene dirs)"

text \<open>The value is \<open>None\<close> for Python's \<open>None\<close>: the walk loop body never ran.\<close>

definition gene_exists :: "world \<Rightarrow> string \<Rightarrow> string \<Rightarrow> string \<Rightarrow> bool option" where
  "gene_exists w species methylationType gene =
     (case os_walk_top w (datasets_path_of w species) of
        None \<Rightarrow> None
      | Some dirs \<Rightarrow>
          Some (gene_exists_dirs w (datasets_path_of w species) methylationType gene dirs))"

subsection \<open>\<open>set_color_by_percentile\<close>\<close>

text \<open>The function returns the string \<open>'grey'\<close> or a float.\<close>

datatype 'a colour = Str string | Flt "'a pyfloat"

definition set_color_by_percentile ::
  "'a::linorder pyfloat \<Rightarrow> 'a pyfloat \<Rightarrow> 'a pyfloat \<Rightarrow> 'a colour" where
  "set_color_by_percentile this start end' =
     (if this = NaN then Str ''grey''
      else if py_lt this start then Flt start
      else if py_gt this end' then Flt end'
      else Flt this)"

subsection \<open>\<open>find_orthologs\<close> and \<open>convert_geneID_mmu_hsa\<close>\<close>

definition no_ortholog :: row where
  "no_ortholog = [(''mmu_gID'', CNull), (''hsa_gID'', CNull)]"

text \<open>
  \<open>SELECT * FROM orthologs WHERE key=?\<close> followed by \<open>fetchone\<close>. The handler of
  \<open>sqlite3.Error\<close> formats its message with the name \<open>species\<close>, which is neither a
  parameter of the function nor a global of the module: the handler raises NameError
  before it prints.
\<close>

definition find_orthologs :: "world \<Rightarrow> string \<Rightarrow> string \<Rightarrow> row io" where
  "find_orthologs w mmu_gid hsa_gid =
     (if mmu_gid = [] \<and> hsa_gid = [] then py_return no_ortholog
      else
        case sqlite3_file w (config_DATA_DIR w @ ''/datasets/orthologs.sqlite3'') of
          Unopenable \<Rightarrow> py_raise OperationalError
        | Database tables \<Rightarrow>
            let query_key = (if mmu_gid \<noteq> [] then ''mmu_gID'' else ''hsa_gID'');
                query_value = (if mmu_gid \<noteq> [] then mmu_gid else hsa_gid)
            in case map_of tables ''orthologs'' of
                 None \<Rightarrow> py_raise NameError
               | Some rows \<Rightarrow>
                   (case filter (\<lambda>r. map_of r query_key = Some (CStr query_value)) rows of
                      [] \<Rightarrow> py_return no_ortholog
                    | query_results # _ \<Rightarrow> py_return query_results))"

text \<open>Both branches that look an ortholog up run the query twice, as the source does.\<close>

definition convert_geneID_mmu_hsa :: "world \<Rightarrow> string \<Rightarrow> string \<Rightarrow> cell io" where
  "convert_geneID_mmu_hsa w species geneID =
     (if species = ''mouse_published'' \<or> species = ''mmu'' then
        if \<not> py_in ''ENSMUSG'' geneID then
          bind (bind (find_orthologs w [] geneID) (getitem ''mmu_gID''))
            (\<lambda>mmu. bind (find_orthologs w [] geneID) (getitem ''mmu_gID''))
        else py_return (CStr geneID)
      else
        if py_in ''ENSMUSG'' geneID then
          bind (bind (find_orthologs w geneID []) (getitem ''hsa_gID''))
            (\<lambda>gene2. bind (find_orthologs w geneID []) (getitem ''hsa_gID''))
        else py_return (CStr geneID))"

subsection \<open>SQL on the tables of a database file\<close>

text \<open>
  \<open>WHERE column LIKE pattern\<close>: a text cell matches by SQLite's LIKE, NULL matches
  absent. The columns searched hold text or NULL.
\<close>

definition like_col :: "world \<Rightarrow> string \<Rightarrow> string \<Rightarrow> row \<Rightarrow> bool" where
  "like_col w column pat r =
     (case col r column of CStr v \<Rightarrow> sql_like w v pat | _ \<Rightarrow> False)"

text \<open>
  SQLite's order of values: NULL (a NaN is stored as NULL), then numbers by value, then
  text by its bytes.
\<close>

fun sql_class :: "cell \<Rightarrow> nat" where
  "sql_class CNull = 0"
| "sql_class (CFloat NaN) = 0"
| "sql_class (CInt i) = 1"
| "sql_class (CFloat (Num x)) = 1"
| "sql_class (CStr s) = 2"

fun sql_num :: "cell \<Rightarrow> real" where
  "sql_num (CInt i) = of_int i"
| "sql_num (CFloat (Num x)) = x"
| "sql_num _ = 0"

fun str_lt :: "string \<Rightarrow> string \<Rightarrow> bool" where
  "str_lt [] [] = False"
| "str_lt [] (b # bs) = True"
| "str_lt (a # as) [] = False"
| "str_lt (a # as) (b # bs) =
     ((of_char a :: nat) < of_char b \<or> (a = b \<and> str_lt as bs))"

fun sql_text :: "cell \<Rightarrow> string" where
  "sql_text (CStr s) = s"
| "sql_text _ = []"

definition sql_lt :: "cell \<Rightarrow> cell \<Rightarrow> bool" where
  "sql_lt a b =
     (sql_class a < sql_class b
      \<or> (sql_class a = sql_class b
          \<and> (if sql_class a = 1 then sql_num a < sql_num b
              else if sql_class a = 2 then str_lt (sql_text a) (sql_text b)
              else False)))"

text \<open>\<open>ORDER BY column DESC\<close>; rows that tie keep their table order.\<close>

fun insert_desc :: "string \<Rightarrow> row \<Rightarrow> row list \<Rightarrow> row list" where
  "insert_desc k r [] = [r]"
| "insert_desc k r (x # xs) =
     (if sql_lt (col x k) (col r k) then r # x # xs else x # insert_desc k r xs)"

definition order_by_desc :: "string \<Rightarrow> row list \<Rightarrow> row list" where
  "order_by_desc k rows = foldr (insert_desc k) rows []"

subsection \<open>\<open>search_gene_names\<close>, \<open>gene_id_to_name\<close> and \<open>get_corr_genes\<close>\<close>

definition log_line :: "world \<Rightarrow> string \<Rightarrow> string" where
  "log_line w msg = ''['' @ datetime_now w @ ''] '' @ msg"

definition gene_names_path :: "world \<Rightarrow> string \<Rightarrow> string" where
  "gene_names_path w species =
     config_DATA_DIR w @ ''/ensembles/'' @ species @ ''/species/gene_names.sqlite3''"

text \<open>
  \<open>SELECT * FROM gene_names WHERE geneName LIKE ?\<close> with \<open>query + '%'\<close>, then the
  first 50 rows of \<open>fetchall\<close>.
\<close>

definition search_gene_names :: "world \<Rightarrow> string \<Rightarrow> string \<Rightarrow> row list io" where
  "search_gene_names w species query =
     (if \<not> species_exists w species then py_return []
      else
        case sqlite3_file w (gene_names_path w species) of
          Unopenable \<Rightarrow> py_raise OperationalError
        | Database tables \<Rightarrow>
            (case map_of tables ''gene_names'' of
               None \<Rightarrow>
                 bind (py_print (log_line w
                         (''ERROR in app: Could not open gene_names.sqlite3 for '' @ species)))
                   (\<lambda>_. py_return [])
             | Some rows \<Rightarrow>
                 py_return (take 50 (filter (like_col w ''geneName'' (query @ ''%'')) rows))))"

text \<open>
  \<open>gene_id_to_name\<close> returns the empty list, \<open>None\<close> or the dictionary of the first
  matching row. Its query is whatever the caller holds for a gene ID, which may be
  \<open>None\<close>. \<open>dict(None)\<close>, when no row matches, is a TypeError, and so is \<open>query + '%'\<close>
  on a number.
\<close>

datatype gene_info = EmptyList | PyNone | Dict row

definition gene_id_to_name :: "world \<Rightarrow> string \<Rightarrow> cell \<Rightarrow> gene_info io" where
  "gene_id_to_name w species query =
     (if \<not> species_exists w species \<or> query = CStr [] \<or> query = CNull
      then py_return EmptyList
      else
        case sqlite3_file w (gene_names_path w species) of
          Unopenable \<Rightarrow> py_raise OperationalError
        | Database tables \<Rightarrow>
            (case query of
               CStr q \<Rightarrow>
                 (case map_of tables ''gene_names'' of
                    None \<Rightarrow>
                      bind (py_print (log_line w
                              (''ERROR in app: Could not load gene_names.sqlite3 for '' @ species)))
                        (\<lambda>_. py_return PyNone)
                  | Some rows \<Rightarrow>
                      (case filter (like_col w ''geneID'' (q @ ''%'')) rows of
                         [] \<Rightarrow> py_raise TypeError
                       | query_results # _ \<Rightarrow> py_return (Dict query_results)))
             | _ \<Rightarrow> py_raise TypeError))"

text \<open>\<open>gene_id_to_name(...)['geneName']\<close>, as the plot functions use it.\<close>

definition geneName_of :: "gene_info \<Rightarrow> cell io" where
  "geneName_of g = (case g of Dict d \<Rightarrow> getitem ''geneName'' d | _ \<Rightarrow> py_raise TypeError)"

text \<open>
  \<open>SELECT Gene2, Correlation FROM corr_genes WHERE Gene1 LIKE ? ORDER BY Correlation
  DESC LIMIT 50\<close> on the rows of the table.
\<close>

definition select_corr_genes :: "world \<Rightarrow> row list \<Rightarrow> string \<Rightarrow> row list" where
  "select_corr_genes w rows query =
     map (\<lambda>r. [(''Gene2'', col r ''Gene2''), (''Correlation'', col r ''Correlation'')])
       (take 50 (order_by_desc ''Correlation''
          (filter (like_col w ''Gene1'' (query @ ''%'')) rows)))"

text \<open>
  The loop of \<open>get_corr_genes\<close> over \<open>enumerate(query_results, rank)\<close>. Storing
  \<open>'Rank'\<close> into what \<open>gene_id_to_name\<close> returned is a TypeError unless that is a
  dictionary.
\<close>

fun corr_table_data :: "world \<Rightarrow> string \<Rightarrow> nat \<Rightarrow> row list \<Rightarrow> row list io" where
  "corr_table_data w species rank [] = py_return []"
| "corr_table_data w species rank (gene # items) =
     bind (gene_id_to_name w species (col gene ''Gene2''))
       (\<lambda>geneInfo.
          case geneInfo of
            Dict d \<Rightarrow>
              bind (corr_table_data w species (Suc rank) items)
                (\<lambda>rest. py_return
                   (AList.update ''Corr'' (col gene ''Correlation'')
                      (AList.update ''Rank'' (CInt (int rank)) d) # rest))
          | _ \<Rightarrow> py_raise TypeError)"

text \<open>\<open>get_corr_genes\<close> returns the integer 1 or the table.\<close>

datatype corr_genes = PyInt int | Table "row list"

definition corr_genes_path :: "world \<Rightarrow> string \<Rightarrow> string" where
  "corr_genes_path w species =
     config_DATA_DIR w @ ''/ensembles/'' @ species @ ''/top_corr_genes.sqlite3''"

definition get_corr_genes :: "world \<Rightarrow> string \<Rightarrow> string \<Rightarrow> corr_genes io" where
  "get_corr_genes w species query =
     (case sqlite3_file w (corr_genes_path w species) of
        Unopenable \<Rightarrow> py_raise OperationalError
      | Database tables \<Rightarrow>
          (case map_of tables ''corr_genes'' of
             None \<Rightarrow>
               bind (py_print (log_line w
                       (''ERROR in app: Could not load top_corr_genes.sqlite3 for '' @ species)))
                 (\<lambda>_. py_return (PyInt 1))
           | Some rows \<Rightarrow>
               bind (corr_table_data w species 1 (select_corr_genes w rows query))
                 (\<lambda>table_data. py_return (Table table_data))))"

subsection \<open>\<open>get_cluster_points\<close>\<close>

text \<open>The list of cluster points, or \<open>None\<close>.\<close>

definition tsne_path :: "world \<Rightarrow> string \<Rightarrow> string" where
  "tsne_path w species =
     config_DATA_DIR w @ ''/ensembles/'' @ species @ ''/tsne_points_ordered.tsv''"

definition get_cluster_points :: "world \<Rightarrow> string \<Rightarrow> row list option io" where
  "get_cluster_points w species =
     (if \<not> species_exists w species then py_return None
      else
        case csv_DictReader w (tsne_path w species) of
          Some points \<Rightarrow> py_return (Some points)
        | None \<Rightarrow>
            bind (py_print (log_line w
                    (''ERROR in app: Failed to load tsne data for '' @ species)))
              (\<lambda>_. py_return None))"

subsection \<open>\<open>get_metadata\<close>\<close>








subsection \<open>\<open>randomize_cluster_colors\<close>\<close>




subsection \<open>\<open>median_cluster_mch\<close>\<close>

text \<open>
  A record of the list that \<open>get_gene_methylation\<close> returns: the seven columns of the
  cluster points and the two of the methylation file. \<open>cluster_ordered\<close> is numeric by
  then.
\<close>

record point =
  samp :: cell
  tsne_x :: cell
  tsne_y :: cell
  cluster_label :: cell
  cluster_name :: cell
  cluster_ordered :: "real pyfloat"
  cluster_ortholog :: cell
  original :: "real pyfloat"
  normalized :: "real pyfloat"

text \<open>The columns of the frame \<open>pandas.DataFrame(gene_info)\<close>, by name.\<close>

definition column :: "string \<Rightarrow> (point \<Rightarrow> cell) option" where
  "column name =
     (if name = ''samp'' then Some samp
      else if name = ''tsne_x'' then Some tsne_x
      else if name = ''tsne_y'' then Some tsne_y
      else if name = ''cluster_label'' then Some cluster_label
      else if name = ''cluster_name'' then Some cluster_name
      else if name = ''cluster_ordered'' then Some (\<lambda>p. CFloat (cluster_ordered p))
      else if name = ''cluster_ortholog'' then Some cluster_ortholog
      else if name = ''original'' then Some (\<lambda>p. CFloat (original p))
      else if name = ''normalized'' then Some (\<lambda>p. CFloat (normalized p))
      else None)"


text \<open>
  \<open>sort_values\<close> on a numeric column: ascending, NaN last. pandas leaves the order of
  rows that tie to its sorting algorithm; the model keeps them in their order.
\<close>

fun nan_last :: "real pyfloat \<Rightarrow> bool \<times> real" where
  "nan_last NaN = (True, 0)"
| "nan_last (Num x) = (False, x)"

definition sort_values :: "('a \<Rightarrow> real pyfloat) \<Rightarrow> 'a list \<Rightarrow> 'a list" where
  "sort_values f rows = sort_key (\<lambda>r. nan_last (f r)) rows"




text \<open>
  The median of a column of a group: NaN values are skipped, the median of no value is
  NaN, and that of an even number of values is the mean of the middle two. The
  arithmetic is that of the reals.
\<close>

fun num_values :: "real pyfloat list \<Rightarrow> real list" where
  "num_values [] = []"
| "num_values (NaN # vs) = num_values vs"
| "num_values (Num x # vs) = x # num_values vs"


text \<open>The distinct elements of a list, each where it occurs first.\<close>

definition first_seen :: "'a list \<Rightarrow> 'a list" where
  "first_seen xs = rev (remdups (rev xs))"


subsection \<open>\<open>get_gene_methylation\<close>\<close>

definition cluster_columns :: "string list" where
  "cluster_columns =
     [''samp'', ''tsne_x'', ''tsne_y'', ''cluster_label'', ''cluster_name'',
      ''cluster_ordered'', ''cluster_ortholog'']"

text \<open>
  The columns of \<open>pandas.DataFrame(rows)\<close> are the keys of the dictionaries; selecting
  a list of columns is a KeyError unless the frame has them all.
\<close>

definition has_columns :: "row list \<Rightarrow> string list \<Rightarrow> bool" where
  "has_columns rows columns =
     list_all (\<lambda>c. list_ex (\<lambda>r. map_of r c \<noteq> None) rows) columns"

text \<open>
  The files of the gene, one per dataset directory that has one: no match of the glob
  pattern and a file that is not found are both skipped.
\<close>

fun read_gene_frames ::
  "world \<Rightarrow> string \<Rightarrow> string \<Rightarrow> string \<Rightarrow> string list \<Rightarrow> mch_row list list" where
  "read_gene_frames w topdir methylationType gene [] = []"
| "read_gene_frames w topdir methylationType gene (dir # dirs) =
     (case gene_glob w topdir dir methylationType gene of
        [] \<Rightarrow> read_gene_frames w topdir methylationType gene dirs
      | filename # _ \<Rightarrow>
          (case pandas_read_csv w filename of
             None \<Rightarrow> read_gene_frames w topdir methylationType gene dirs
           | Some mch \<Rightarrow> mch # read_gene_frames w topdir methylationType gene dirs))"

text \<open>
  \<open>pandas.merge(cluster, mch, on='samp', how='left')\<close>: the rows of the left frame in
  their order, each once for every row of the right frame with its sample, in the
  order of the right frame, and once with NaN when there is none. A merged row is the
  cluster point with the two values of the methylation row.
\<close>

type_synonym merged_row = "row \<times> real pyfloat \<times> real pyfloat"

fun merge_left :: "row list \<Rightarrow> mch_row list \<Rightarrow> merged_row list" where
  "merge_left [] mch = []"
| "merge_left (c # cluster) mch =
     (case filter (\<lambda>m. mch_samp m = col c ''samp'') mch of
        [] \<Rightarrow> [(c, NaN, NaN)]
      | ms \<Rightarrow> map (\<lambda>m. (c, mch_original m, mch_normalized m)) ms)
     @ merge_left cluster mch"

text \<open>
  \<open>Series.quantile(q)\<close>: NaN values are skipped, and the value is interpolated linearly
  between the two sorted values around the position \<open>(n - 1) q\<close>. The arithmetic is
  that of the reals.
\<close>

definition quantile :: "real \<Rightarrow> real pyfloat list \<Rightarrow> real pyfloat" where
  "quantile q vs =
     (let xs = sort (num_values vs); n = length xs
      in if n = 0 then NaN
         else
           let h = (real n - 1) * q; lo = nat \<lfloor>h\<rfloor>; hi = nat \<lceil>h\<rceil>
           in Num (xs ! lo + (h - real lo) * (xs ! hi - xs ! lo)))"

definition merged_normalized :: "merged_row \<Rightarrow> real pyfloat" where
  "merged_normalized r = snd (snd r)"

text \<open>
  The rows that \<open>dataframe_merged[dataframe_merged.normalized < three_std_dev]\<close> keeps
  when outliers are not wanted.
\<close>

definition drop_outliers :: "merged_row list \<Rightarrow> merged_row list" where
  "drop_outliers dataframe_merged =
     (let three_std_dev = quantile (99 / 100) (map merged_normalized dataframe_merged)
      in filter (\<lambda>r. py_lt (merged_normalized r) three_std_dev) dataframe_merged)"

text \<open>The record of a merged row, with \<open>cluster_ordered\<close> made numeric.\<close>

definition to_point :: "world \<Rightarrow> merged_row \<Rightarrow> point" where
  "to_point w r =
     (case r of (c, orig, normd) \<Rightarrow>
        \<lparr>samp = col c ''samp'', tsne_x = col c ''tsne_x'', tsne_y = col c ''tsne_y'',
         cluster_label = col c ''cluster_label'', cluster_name = col c ''cluster_name'',
         cluster_ordered = pandas_to_numeric w (col c ''cluster_ordered''),
         cluster_ortholog = col c ''cluster_ortholog'',
         original = orig, normalized = normd\<rparr>)"

text \<open>
  \<open>gene\<close> is the text that the path patterns are formatted with. \<open>not gene_exists(...)\<close>
  holds for \<open>False\<close> and for \<open>None\<close>.
\<close>

definition get_gene_methylation ::
  "world \<Rightarrow> string \<Rightarrow> string \<Rightarrow> string \<Rightarrow> bool \<Rightarrow> point list io" where
  "get_gene_methylation w species methylationType gene outliers =
     (if \<not> species_exists w species \<or> gene_exists w species methylationType gene \<noteq> Some True
      then py_return []
      else
        bind (get_cluster_points w species)
          (\<lambda>cluster_points.
             let cluster = (case cluster_points of None \<Rightarrow> [] | Some points \<Rightarrow> points)
             in case os_walk_top w (datasets_path_of w species) of
                  None \<Rightarrow> py_raise StopIteration
                | Some dirs \<Rightarrow>
                    let dataframe_list =
                          read_gene_frames w (datasets_path_of w species) methylationType gene dirs
                    in if dataframe_list = [] then py_return []
                       else if \<not> has_columns cluster cluster_columns then py_raise KeyError
                       else
                         let dataframe_merged = merge_left cluster (concat dataframe_list);
                             kept = (if \<not> outliers then drop_outliers dataframe_merged
                                     else dataframe_merged)
                         in py_return (sort_values cluster_ordered (map (to_point w) kept))))"

subsection \<open>A small world for concrete runs\<close>

definition demo_orthologs :: "row list" where
  "demo_orthologs =
     [[(''mmu_gID'', CStr ''ENSMUSG01''), (''hsa_gID'', CNull)],
      [(''mmu_gID'', CStr ''ENSMUSG02''), (''hsa_gID'', CStr ''ENSG02'')]]"

definition demo_gene_names :: "row list" where
  "demo_gene_names =
     [(''geneID'', CStr ''ENSMUSG01''), (''geneName'', CStr ''Gad1'')]
     # [(''geneID'', CStr ''ENSMUSG02''), (''geneName'', CStr ''Gad2'')]
     # [(''geneID'', CStr ''ENSMUSG03''), (''geneName'', CStr ''Satb2'')]
     # replicate 60 [(''geneID'', CStr ''ENSMUSG99''), (''geneName'', CStr ''Gm99'')]"

definition demo_corr_genes :: "row list" where
  "demo_corr_genes =
     [[(''Gene1'', CStr ''ENSMUSG01''), (''Gene2'', CStr ''ENSMUSG03''),
       (''Correlation'', CFloat (Num (1/2)))],
      [(''Gene1'', CStr ''ENSMUSG01''), (''Gene2'', CStr ''ENSMUSG02''),
       (''Correlation'', CFloat (Num (3/4)))],
      [(''Gene1'', CStr ''ENSMUSG02''), (''Gene2'', CStr ''ENSMUSG01''),
       (''Correlation'', CFloat (Num (3/4)))]]"

definition demo_tsne :: "row list" where
  "demo_tsne =
     [[(''samp'', CStr ''cellA''), (''tsne_x'', CStr ''0.5''), (''tsne_y'', CStr ''1.5''),
       (''cluster_label'', CStr ''c2''), (''cluster_name'', CStr ''L5''),
       (''cluster_ordered'', CStr ''2''), (''cluster_ortholog'', CStr ''O2'')],
      [(''samp'', CStr ''cellB''), (''tsne_x'', CStr ''0.1''), (''tsne_y'', CStr ''0.2''),
       (''cluster_label'', CStr ''c1''), (''cluster_name'', CStr ''L2''),
       (''cluster_ordered'', CStr ''1''), (''cluster_ortholog'', CStr ''O1'')],
      [(''samp'', CStr ''cellC''), (''tsne_x'', CStr ''0.7''), (''tsne_y'', CStr ''0.9''),
       (''cluster_label'', CStr ''c1''), (''cluster_name'', CStr ''L2''),
       (''cluster_ordered'', CStr ''1''), (''cluster_ortholog'', CStr ''O1'')],
      [(''samp'', CStr ''cellD''), (''tsne_x'', CStr ''0.3''), (''tsne_y'', CStr ''0.4''),
       (''cluster_label'', CStr ''c2''), (''cluster_name'', CStr ''L5''),
       (''cluster_ordered'', CStr ''2''), (''cluster_ortholog'', CStr ''O2'')]]"

definition demo_mch :: "mch_row list" where
  "demo_mch =
     [\<lparr>mch_gene = CStr ''ENSMUSG01'', mch_samp = CStr ''cellA'',
       mch_original = Num (1/10), mch_normalized = Num 3\<rparr>,
      \<lparr>mch_gene = CStr ''ENSMUSG01'', mch_samp = CStr ''cellB'',
       mch_original = Num (2/10), mch_normalized = Num 1\<rparr>,
      \<lparr>mch_gene = CStr ''ENSMUSG01'', mch_samp = CStr ''cellC'',
       mch_original = Num (3/10), mch_normalized = Num 2\<rparr>]"

definition demo_world :: world where
  "demo_world = \<lparr>
     config_DATA_DIR = ''/data'',
     datetime_now = ''2018-01-01 00:00:00'',
     os_path_isdir = (\<lambda>p. p = ''/data/ensembles/mouse_published'' \<or> p = ''/data/ensembles/human''),
     os_path_isfile = (\<lambda>p. p = ''/data/datasets/atlasB/visual/metadata.csv''),
     os_walk_top = (\<lambda>p. if p = ''/data/ensembles/mouse_published/datasets'' then Some [''ds1'', ''ds2'']
                         else if p = ''/data/datasets'' then Some [''atlasA'', ''atlasB'']
                         else None),
     glob_glob = (\<lambda>p. if p = ''/data/ensembles/mouse_published/datasets/ds2/mch/ENSMUSG01*''
                       then [''/data/ensembles/mouse_published/datasets/ds2/mch/ENSMUSG01.tsv''] else []),
     sqlite3_file = (\<lambda>p.
        if p = ''/data/datasets/orthologs.sqlite3''
          then Database [(''orthologs'', demo_orthologs)]
        else if p = ''/data/ensembles/mouse_published/species/gene_names.sqlite3''
          then Database [(''gene_names'', demo_gene_names)]
        else if p = ''/data/ensembles/mouse_published/top_corr_genes.sqlite3''
          then Database [(''corr_genes'', demo_corr_genes)]
        else if p = ''/data/ensembles/human/species/gene_names.sqlite3''
          then Database []
        else if p = ''/data/ensembles/human/top_corr_genes.sqlite3''
          then Database []
        else Unopenable),
     sql_like = (\<lambda>v pat. pat \<noteq> [] \<and> prefix (butlast pat) v),
     csv_DictReader = (\<lambda>p.
        if p = ''/data/ensembles/mouse_published/tsne_points_ordered.tsv'' then Some demo_tsne
        else if p = ''/data/datasets/atlasB/visual/metadata.csv''
          then Some [[(''cell'', CStr ''cellA''), (''layer'', CStr ''L5'')]]
        else None),
     pandas_read_csv = (\<lambda>p.
        if p = ''/data/ensembles/mouse_published/datasets/ds2/mch/ENSMUSG01.tsv'' then Some demo_mch
        else None),
     pandas_to_numeric = (\<lambda>c.
        if c = CStr ''1'' then Num 1 else if c = CStr ''2'' then Num 2 else NaN)
   \<rparr>"




section \<open>Properties\<close>

subsection \<open>Helper facts\<close>

lemma bind_return [simp]: "bind (py_return x) f = f x"
  by (simp add: bind_def py_return_def split: prod.splits)

lemma bind_raise [simp]: "bind (py_raise e) f = py_raise e"
  by (simp add: bind_def py_raise_def)

lemma bind_Inr [simp]: "bind (out, Inr x) f = (out @ fst (f x), snd (f x))"
  by (simp add: bind_def split: prod.splits)

lemma bind_Inl [simp]: "bind (out, Inl e) f = (out, Inl e)"
  by (simp add: bind_def)

lemma bind_print [simp]: "bind (py_print s) f = (s # fst (f ()), snd (f ()))"
  by (simp add: bind_def py_print_def split: prod.splits)

lemma bind_Inr_iff:
  "bind m f = (out, Inr y) \<longleftrightarrow>
     (\<exists>o1 x o2. m = (o1, Inr x) \<and> f x = (o2, Inr y) \<and> out = o1 @ o2)"
  by (cases m) (auto simp: bind_def split: sum.splits prod.splits)


lemma py_in_sublist: "py_in sub s = sublist sub s"
  by (induction s) (simp_all add: sublist_Cons_right)

lemma gene_exists_dirs_iff:
  "gene_exists_dirs w topdir mt gene dirs =
     (\<exists>d \<in> set dirs. \<exists>f fs. gene_glob w topdir d mt gene = f # fs \<and> f \<noteq> [])"
  by (induction dirs) (auto split: list.splits)

subsection \<open>Clipping to the percentile limits\<close>

text \<open>
  C2. For a numeric value \<open>v\<close> and bounds \<open>start \<le> end\<close>, \<open>set_color_by_percentile\<close>
  returns \<open>start\<close> when \<open>v < start\<close>, \<open>end\<close> when \<open>v > end\<close> and \<open>v\<close> itself when
  \<open>start \<le> v \<le> end\<close>; for NaN it returns the string \<open>'grey'\<close>, whatever the bounds.
\<close>

theorem set_color_by_percentile_clips:
  fixes v start end' :: "'a::linorder" and lo hi :: "'a pyfloat"
  assumes "start \<le> end'"
  shows "(v < start \<longrightarrow>
            set_color_by_percentile (Num v) (Num start) (Num end') = Flt (Num start))
       \<and> (v > end' \<longrightarrow>
            set_color_by_percentile (Num v) (Num start) (Num end') = Flt (Num end'))
       \<and> (start \<le> v \<and> v \<le> end' \<longrightarrow>
            set_color_by_percentile (Num v) (Num start) (Num end') = Flt (Num v))
       \<and> set_color_by_percentile NaN lo hi = Str ''grey''"
  using assms by (auto simp: set_color_by_percentile_def)

theorem set_color_by_percentile_clips_witness:
  "set_color_by_percentile (Num (0::int)) (Num 1) (Num 3) = Flt (Num 1)
   \<and> set_color_by_percentile (Num (5::int)) (Num 1) (Num 3) = Flt (Num 3)
   \<and> set_color_by_percentile (Num (2::int)) (Num 1) (Num 3) = Flt (Num 2)
   \<and> set_color_by_percentile (NaN :: int pyfloat) (Num 1) (Num 3) = Str ''grey''"
proof -
  have le: "(1::int) \<le> 3" by simp
  show ?thesis
    using set_color_by_percentile_clips [OF le, where v = 0 and lo = "Num 1" and hi = "Num 3"]
      set_color_by_percentile_clips [OF le, where v = 5 and lo = "Num 1" and hi = "Num 3"]
      set_color_by_percentile_clips [OF le, where v = 2 and lo = "Num 1" and hi = "Num 3"]
    by simp
qed

subsection \<open>\<open>gene_exists\<close> without a datasets directory\<close>

text \<open>
  C9. When the walk of the species' datasets directory yields absent,
  \<open>gene_exists\<close> returns \<open>None\<close>, not the documented \<open>False\<close>; when the walk yields
  its first step, it returns a boolean: whether some dataset directory has a file
  matching the gene.
\<close>

theorem gene_exists_None_without_datasets:
  "(os_walk_top w (datasets_path_of w species) = None \<longrightarrow>
      gene_exists w species methylationType gene = None)
   \<and> (\<forall>dirs. os_walk_top w (datasets_path_of w species) = Some dirs \<longrightarrow>
        gene_exists w species methylationType gene =
          Some (\<exists>d \<in> set dirs. \<exists>f fs.
                  gene_glob w (datasets_path_of w species) d methylationType gene = f # fs
                  \<and> f \<noteq> []))"
  by (simp add: gene_exists_def gene_exists_dirs_iff)

theorem gene_exists_None_without_datasets_witness:
  "gene_exists demo_world ''hsa'' ''mch'' ''ENSG01'' = None
   \<and> gene_exists demo_world ''mouse_published'' ''mch'' ''ENSMUSG01'' = Some True
   \<and> gene_exists demo_world ''mouse_published'' ''mch'' ''ENSMUSG07'' = Some False"
proof -
  have walk_hsa: "os_walk_top demo_world (datasets_path_of demo_world ''hsa'') = None"
    by (simp add: demo_world_def datasets_path_of_def)
  have walk_mmu: "os_walk_top demo_world (datasets_path_of demo_world ''mouse_published'')
      = Some [''ds1'', ''ds2'']"
    by (simp add: demo_world_def datasets_path_of_def)
  have g1: "gene_exists demo_world ''hsa'' ''mch'' ''ENSG01'' = None"
    using gene_exists_None_without_datasets [of demo_world "''hsa''" "''mch''" "''ENSG01''"]
      walk_hsa by simp
  have g2: "gene_exists demo_world ''mouse_published'' ''mch'' ''ENSMUSG01'' = Some True"
    using gene_exists_None_without_datasets [of demo_world "''mouse_published''" "''mch''" "''ENSMUSG01''"]
      walk_mmu by (simp add: gene_glob_def demo_world_def datasets_path_of_def)
  have g3: "gene_exists demo_world ''mouse_published'' ''mch'' ''ENSMUSG07'' = Some False"
    using gene_exists_None_without_datasets [of demo_world "''mouse_published''" "''mch''" "''ENSMUSG07''"]
      walk_mmu by (simp add: gene_glob_def demo_world_def datasets_path_of_def)
  from g1 g2 g3 show ?thesis by simp
qed

subsection \<open>Result sizes\<close>

lemma corr_table_data_length:
  "corr_table_data w species rank items = (out, Inr t) \<Longrightarrow> length t = length items"
proof (induction items arbitrary: rank out t)
  case Nil
  then show ?case by (simp add: py_return_def)
next
  case (Cons gene items)
  from Cons.prems obtain o1 g o2 where
    g: "(case g of
           Dict d \<Rightarrow>
             bind (corr_table_data w species (Suc rank) items)
               (\<lambda>rest. py_return
                  (AList.update ''Corr'' (col gene ''Correlation'')
                     (AList.update ''Rank'' (CInt (int rank)) d) # rest))
         | _ \<Rightarrow> py_raise TypeError) = (o2, Inr t)"
    by (auto simp: bind_Inr_iff)
  then obtain d where d: "g = Dict d"
    by (cases g) (simp_all add: py_raise_def)
  with g obtain o3 rest o4 where
    rest: "corr_table_data w species (Suc rank) items = (o3, Inr rest)"
    and t: "py_return (AList.update ''Corr'' (col gene ''Correlation'')
              (AList.update ''Rank'' (CInt (int rank)) d) # rest) = (o4, Inr t)"
    by (auto simp: bind_Inr_iff)
  from Cons.IH [OF rest] t show ?case
    by (auto simp: py_return_def)
qed

lemma select_corr_genes_length: "length (select_corr_genes w rows query) \<le> 50"
  by (simp add: select_corr_genes_def)

text \<open>
  C8. Whenever \<open>search_gene_names\<close> returns, it returns at most 50 records; the rows
  that the statement of \<open>get_corr_genes\<close> selects are at most 50, and whenever
  \<open>get_corr_genes\<close> returns a table, the table has at most 50 rows.
\<close>

theorem result_sizes_capped:
  "(\<forall>out rows. search_gene_names w species query = (out, Inr rows) \<longrightarrow> length rows \<le> 50)
   \<and> (\<forall>rows. length (select_corr_genes w rows query) \<le> 50)
   \<and> (\<forall>out table. get_corr_genes w species query = (out, Inr (Table table)) \<longrightarrow>
         length table \<le> 50)"
proof (intro conjI allI impI)
  fix out rows
  assume "search_gene_names w species query = (out, Inr rows)"
  then show "length rows \<le> 50"
    by (auto simp: search_gene_names_def py_return_def py_raise_def
        split: if_splits sqlite_file.splits option.splits)
next
  fix rows
  show "length (select_corr_genes w rows query) \<le> 50"
    by (rule select_corr_genes_length)
next
  fix out table
  assume "get_corr_genes w species query = (out, Inr (Table table))"
  then show "length table \<le> 50"
    by (auto simp: get_corr_genes_def py_return_def py_raise_def bind_Inr_iff
        dest!: corr_table_data_length
        split: sqlite_file.splits option.splits)
      (use select_corr_genes_length in \<open>simp\<close>)
qed

lemma demo_search_gene_names:
  "search_gene_names demo_world ''mouse_published'' ''G'' =
     ([], Inr (take 50 (filter (like_col demo_world ''geneName'' ''G%'') demo_gene_names)))"
  by (simp add: search_gene_names_def demo_world_def species_exists_def gene_names_path_def
      py_return_def)

lemma demo_get_corr_genes:
  "get_corr_genes demo_world ''mouse_published'' ''ENSMUSG01'' =
     ([], Inr (Table
        [[(''geneID'', CStr ''ENSMUSG02''), (''geneName'', CStr ''Gad2''),
          (''Rank'', CInt 1), (''Corr'', CFloat (Num (3 / 4)))],
         [(''geneID'', CStr ''ENSMUSG03''), (''geneName'', CStr ''Satb2''),
          (''Rank'', CInt 2), (''Corr'', CFloat (Num (1 / 2)))]]))"
  by (simp add: get_corr_genes_def corr_genes_path_def demo_world_def select_corr_genes_def
      demo_corr_genes_def like_col_def col_def order_by_desc_def sql_lt_def
      gene_id_to_name_def species_exists_def gene_names_path_def demo_gene_names_def
      py_return_def)

text \<open>
  In the demo world 62 gene names start with \<open>G\<close>; \<open>search_gene_names\<close> returns 50
  of them.
\<close>

theorem result_sizes_capped_witness:
  "length (filter (like_col demo_world ''geneName'' ''G%'') demo_gene_names) = 62
   \<and> (\<exists>rows. search_gene_names demo_world ''mouse_published'' ''G'' = ([], Inr rows) \<and> length rows \<le> 50)
   \<and> (\<exists>table. get_corr_genes demo_world ''mouse_published'' ''ENSMUSG01'' = ([], Inr (Table table))
         \<and> length table \<le> 50)"
proof -
  have n: "length (filter (like_col demo_world ''geneName'' ''G%'') demo_gene_names) = 62"
    by (simp add: demo_gene_names_def like_col_def col_def demo_world_def)
  from result_sizes_capped [of demo_world "''mouse_published''" "''G''"] demo_search_gene_names
  have a: "\<exists>rows. search_gene_names demo_world ''mouse_published'' ''G'' = ([], Inr rows)
             \<and> length rows \<le> 50"
    by blast
  from result_sizes_capped [of demo_world "''mouse_published''" "''ENSMUSG01''"] demo_get_corr_genes
  have b: "\<exists>table. get_corr_genes demo_world ''mouse_published'' ''ENSMUSG01'' = ([], Inr (Table table))
             \<and> length table \<le> 50"
    by blast
  from n a b show ?thesis by blast
qed

subsection \<open>What the query helpers do on an error\<close>






subsection \<open>The dataset metadata\<close>




subsection \<open>Retrying\<close>






subsection \<open>Medians by cluster\<close>


lemma set_first_seen [simp]: "set (first_seen xs) = set xs"
  by (simp add: first_seen_def)

lemma distinct_first_seen [simp]: "distinct (first_seen xs)"
  by (simp add: first_seen_def)











subsection \<open>Gene IDs that already match the species\<close>

text \<open>
  C10. \<open>convert_geneID_mmu_hsa\<close> returns the gene ID unchanged (and prints absent)
  when the species is \<open>mouse_published\<close> or \<open>mmu\<close> and the ID contains \<open>ENSMUSG\<close>, and
  when the species is any other and the ID does not contain \<open>ENSMUSG\<close>.
\<close>

theorem convert_geneID_mmu_hsa_identity:
  "((species = ''mouse_published'' \<or> species = ''mmu'') \<and> sublist ''ENSMUSG'' geneID \<longrightarrow>
      convert_geneID_mmu_hsa w species geneID = ([], Inr (CStr geneID)))
   \<and> (species \<noteq> ''mouse_published'' \<and> species \<noteq> ''mmu'' \<and> \<not> sublist ''ENSMUSG'' geneID \<longrightarrow>
      convert_geneID_mmu_hsa w species geneID = ([], Inr (CStr geneID)))"
  by (simp add: convert_geneID_mmu_hsa_def py_in_sublist py_return_def)

theorem convert_geneID_mmu_hsa_identity_witness:
  "convert_geneID_mmu_hsa demo_world ''mmu'' ''ENSMUSG01'' = ([], Inr (CStr ''ENSMUSG01''))
   \<and> convert_geneID_mmu_hsa demo_world ''human_hv1_published'' ''ENSG01''
       = ([], Inr (CStr ''ENSG01''))"
proof -
  have in1: "sublist ''ENSMUSG'' ''ENSMUSG01''"
    by (simp add: py_in_sublist [symmetric])
  have in2: "\<not> sublist ''ENSMUSG'' ''ENSG01''"
    by (simp add: py_in_sublist [symmetric])
  show ?thesis
    using convert_geneID_mmu_hsa_identity [of "''mmu''" "''ENSMUSG01''" demo_world]
      convert_geneID_mmu_hsa_identity [of "''human_hv1_published''" "''ENSG01''" demo_world]
      in1 in2
    by simp
qed

end
